theory Spec2Isabelle
  imports Main
begin

section \<open>The presigned-URL service (main.py)\<close>

text \<open>
  The module reads three settings from the process environment when it is imported,
  builds one storage client, and registers two GET routes. The storage client and the
  HTTP framework are external: the client is a parameter of the model (what it answers
  to a call), the framework is modelled as far as the route declarations use it.
\<close>

subsection \<open>Python values and built-ins the module uses\<close>

datatype py_error = ValueError

text \<open>\<^verbatim>\<open>os.environ\<close>, after \<^verbatim>\<open>load_dotenv()\<close> has added the entries of the .env file.\<close>

type_synonym environ = "string \<rightharpoonup> string"

text \<open>\<^verbatim>\<open>os.getenv(key)\<close>: the value, or None.\<close>

definition getenv :: "environ \<Rightarrow> string \<Rightarrow> string option" where
  "getenv environ key = environ key"

text \<open>
  \<^verbatim>\<open>os.getenv(key, default)\<close> with an integer default, as line 45 calls it: the
  result is the variable's text when it is set, the integer default otherwise.
\<close>

datatype str_or_int = PyStr string | PyInt int

definition getenv_default :: "environ \<Rightarrow> string \<Rightarrow> int \<Rightarrow> str_or_int" where
  "getenv_default environ key dflt =
     (case environ key of None \<Rightarrow> PyInt dflt | Some v \<Rightarrow> PyStr v)"

text \<open>
  CPython's PyLong_FromString for base 10, which reads ASCII text: leading whitespace,
  one optional sign, digits with single underscores between them, trailing whitespace,
  and nothing else. The digit table gives letters the values 10 to 35, which base 10
  refuses. A literal of more than \<open>max_str_digits\<close> digits is refused when that limit is
  positive (4300 by default since Python 3.11; 0 switches the limit off, which is also
  what older interpreters do).
\<close>

definition Py_ISSPACE :: "char \<Rightarrow> bool" where
  "Py_ISSPACE c = (c \<in> set [CHR 0x20, CHR 0x09, CHR 0x0A, CHR 0x0B, CHR 0x0C, CHR 0x0D])"

definition PyLong_DigitValue :: "char \<Rightarrow> nat" where
  "PyLong_DigitValue c =
     (let n = (of_char c :: nat) in
      if 48 \<le> n \<and> n \<le> 57 then n - 48
      else if 97 \<le> n \<and> n \<le> 122 then n - 87
      else if 65 \<le> n \<and> n \<le> 90 then n - 55
      else 37)"

definition is_digit :: "char \<Rightarrow> bool" where
  "is_digit c = (PyLong_DigitValue c < 10)"

definition digit_or_underscore :: "char \<Rightarrow> bool" where
  "digit_or_underscore c = (is_digit c \<or> c = CHR ''_'')"

fun double_underscore :: "string \<Rightarrow> bool" where
  "double_underscore (a # b # cs) =
     ((a = CHR ''_'' \<and> b = CHR ''_'') \<or> double_underscore (b # cs))"
| "double_underscore _ = False"

definition decimal :: "string \<Rightarrow> nat" where
  "decimal ds = foldl (\<lambda>a c. 10 * a + PyLong_DigitValue c) 0 ds"

definition PyLong_FromString :: "nat \<Rightarrow> string \<Rightarrow> py_error + int" where
  "PyLong_FromString max_str_digits s =
     (let s1 = dropWhile Py_ISSPACE s;
          negative = (s1 \<noteq> [] \<and> hd s1 = CHR ''-'');
          s2 = (if s1 \<noteq> [] \<and> (hd s1 = CHR ''+'' \<or> hd s1 = CHR ''-'') then tl s1 else s1);
          body = takeWhile digit_or_underscore s2;
          rest = dropWhile digit_or_underscore s2;
          digits = filter is_digit body
      in if body = [] \<or> hd body = CHR ''_'' \<or> last body = CHR ''_'' \<or> double_underscore body
            \<or> dropWhile Py_ISSPACE rest \<noteq> []
         then Inl ValueError
         else if 0 < max_str_digits \<and> max_str_digits < length digits
         then Inl ValueError
         else Inr (if negative then - int (decimal digits) else int (decimal digits)))"

text \<open>
  Python's \<^verbatim>\<open>int(s)\<close> on a str. CPython first turns the text into ASCII
  (_PyUnicode_TransformDecimalAndSpaceToASCII) and then calls PyLong_FromString on the
  result. Text that is ASCII already is passed on as it is. In other text every
  whitespace character beyond ASCII becomes a space, every decimal digit beyond ASCII
  becomes its ASCII digit, and any other character beyond ASCII becomes a character that
  PyLong_FromString refuses. Which characters are whitespace and digits is the
  interpreter's Unicode database, and a text of this model is the bytes of its encoding,
  so the transformation of text that is not ASCII is a parameter, \<open>unicode\<close>.
\<close>

definition is_ascii :: "char \<Rightarrow> bool" where
  "is_ascii c = (of_char c < (128::nat))"

definition to_ascii :: "(string \<Rightarrow> string) \<Rightarrow> string \<Rightarrow> string" where
  "to_ascii unicode s = (if list_all is_ascii s then s else unicode s)"

definition int_str :: "nat \<Rightarrow> (string \<Rightarrow> string) \<Rightarrow> string \<Rightarrow> py_error + int" where
  "int_str max_str_digits unicode s = PyLong_FromString max_str_digits (to_ascii unicode s)"

text \<open>\<^verbatim>\<open>int(x)\<close> on what \<^verbatim>\<open>os.getenv\<close> returned.\<close>

fun int_py :: "nat \<Rightarrow> (string \<Rightarrow> string) \<Rightarrow> str_or_int \<Rightarrow> py_error + int" where
  "int_py max_str_digits unicode (PyInt n) = Inr n"
| "int_py max_str_digits unicode (PyStr s) = int_str max_str_digits unicode s"

text \<open>Truth value of \<^verbatim>\<open>S3_BUCKET\<close> in \<^verbatim>\<open>if not S3_BUCKET\<close>: None and the empty text are false.\<close>

fun bool_py :: "string option \<Rightarrow> bool" where
  "bool_py None = False"
| "bool_py (Some s) = (s \<noteq> [])"

text \<open>\<^verbatim>\<open>str(x)\<close>, as an f-string formats \<^verbatim>\<open>S3_BUCKET\<close>.\<close>

fun str_py :: "string option \<Rightarrow> string" where
  "str_py None = ''None''"
| "str_py (Some s) = s"

subsection \<open>The storage client\<close>

text \<open>
  One call of \<^verbatim>\<open>s3_client.generate_presigned_url\<close>: the client method, the Params
  dictionary, ExpiresIn and HttpMethod. Bucket carries \<^verbatim>\<open>S3_BUCKET\<close> as the module
  holds it.
\<close>

record params =
  Bucket :: "string option"
  Key :: string

record presign_call =
  ClientMethod :: string
  Params :: params
  ExpiresIn :: int
  HttpMethod :: string

text \<open>
  What the call can raise, with the text \<^verbatim>\<open>str(e)\<close> of the exception: botocore's
  ClientError, or any other exception that \<^verbatim>\<open>except Exception\<close> catches.
\<close>

datatype py_exception = ClientError string | Exception string

text \<open>
  The client's answer to a call: the signed URL, or an exception. A signed URL carries
  the signing time, so the answer may differ from one request to the next: every
  request is run against the client as it answers then.
\<close>

type_synonym s3_client = "presign_call \<Rightarrow> py_exception + string"

subsection \<open>Module state\<close>

datatype level = INFO | ERROR

text \<open>
  The module-level settings (lines 43 to 45), the records written through \<^verbatim>\<open>logger\<close>
  and the calls the storage client has received, oldest first.
\<close>

record state =
  S3_BUCKET :: "string option"
  AWS_REGION :: "string option"
  PRESIGNED_URL_EXPIRATION :: int
  logged :: "(level \<times> string) list"
  s3_calls :: "presign_call list"

definition logger_error :: "string \<Rightarrow> state \<Rightarrow> state" where
  "logger_error msg s = s\<lparr>logged := logged s @ [(ERROR, msg)]\<rparr>"

definition logger_info :: "string \<Rightarrow> state \<Rightarrow> state" where
  "logger_info msg s = s\<lparr>logged := logged s @ [(INFO, msg)]\<rparr>"

text \<open>
  Importing the module. Line 45 comes first: a value of PRESIGNED_URL_EXPIRATION that
  \<^verbatim>\<open>int\<close> refuses raises ValueError there. Line 51 then builds the storage client
  with \<^verbatim>\<open>boto3.client('s3', region_name=AWS_REGION, ...)\<close>, which raises for a region
  name the library does not accept. Which names those are is the library's, so the
  construction is a parameter, \<open>create_client\<close>: for the region name it is given, None
  when it returns the client and the exception when it raises. When either line
  raises, the application does not start.
\<close>

datatype import_error = Line45 py_error | Line51 py_exception

definition startup ::
  "nat \<Rightarrow> (string \<Rightarrow> string) \<Rightarrow> (string option \<Rightarrow> py_exception option) \<Rightarrow> environ \<Rightarrow>
   import_error + state" where
  "startup max_str_digits unicode create_client environ =
     (case int_py max_str_digits unicode
             (getenv_default environ ''PRESIGNED_URL_EXPIRATION'' 3600) of
        Inl e \<Rightarrow> Inl (Line45 e)
      | Inr n \<Rightarrow>
          (case create_client (getenv environ ''AWS_REGION'') of
             Some e \<Rightarrow> Inl (Line51 e)
           | None \<Rightarrow>
               Inr \<lparr>S3_BUCKET = getenv environ ''S3_BUCKET_NAME'',
                    AWS_REGION = getenv environ ''AWS_REGION'',
                    PRESIGNED_URL_EXPIRATION = n,
                    logged = [],
                    s3_calls = []\<rparr>))"


subsection \<open>The handlers\<close>

datatype http_exception = HTTPException nat string

type_synonym dict = "(string \<times> string) list"

text \<open>
  \<^verbatim>\<open>generate_presigned_url(file_name)\<close>, lines 60 to 98. The result is the returned
  dictionary (\<open>Inr\<close>) or the HTTPException raised (\<open>Inl\<close>), with the state after
  the call. The first log message has one non-ASCII letter, written as its two UTF-8
  bytes.
\<close>

definition generate_presigned_url ::
  "s3_client \<Rightarrow> string \<Rightarrow> state \<Rightarrow> (http_exception + dict) \<times> state" where
  "generate_presigned_url s3_client file_name s =
     (if \<not> bool_py (S3_BUCKET s) then
        (Inl (HTTPException 500 ''Error interno del servidor: Bucket S3 no configurado.''),
         logger_error (''S3_BUCKET_NAME no est'' @ [CHR 0xC3, CHR 0xA1] @
                       '' configurado en las variables de entorno.'') s)
      else
        let object_name = file_name;
            call = \<lparr>ClientMethod = ''put_object'',
                    Params = \<lparr>Bucket = S3_BUCKET s, Key = object_name\<rparr>,
                    ExpiresIn = PRESIGNED_URL_EXPIRATION s,
                    HttpMethod = ''PUT''\<rparr>;
            s1 = s\<lparr>s3_calls := s3_calls s @ [call]\<rparr>
        in case s3_client call of
             Inr response \<Rightarrow>
               (Inr [(''presigned_url'', response), (''object_key'', object_name)],
                logger_info (''URL firmada generada para '' @ object_name @ '' en bucket '' @
                             str_py (S3_BUCKET s)) s1)
           | Inl (ClientError e) \<Rightarrow>
               (Inl (HTTPException 500 (''No se pudo generar la URL firmada: '' @ e)),
                logger_error (''Error generando URL firmada para '' @ object_name @ '': '' @ e) s1)
           | Inl (Exception e) \<Rightarrow>
               (Inl (HTTPException 500 ''Error interno inesperado.''),
                logger_error (''Error inesperado: '' @ e) s1))"

text \<open>\<^verbatim>\<open>health_check()\<close>, lines 101 to 103.\<close>

definition health_check :: "state \<Rightarrow> dict \<times> state" where
  "health_check s = ([(''status'', ''ok'')], s)"

subsection \<open>The routes\<close>

text \<open>
  What the framework sends back. A handler's dictionary is the JSON body of a 200
  response; an HTTPException becomes a response with its status code and the body
  \<^verbatim>\<open>{"detail": ...}\<close>. A request that fails the framework's parameter validation is
  answered by the framework itself with status 422, naming the parameter.
\<close>

datatype response =
    JSONResponse nat dict
  | RequestValidationError "string list"

fun status_code :: "response \<Rightarrow> nat" where
  "status_code (JSONResponse code content) = code"
| "status_code (RequestValidationError loc) = 422"

text \<open>
  \<^verbatim>\<open>@app.get("/generate-presigned-url")\<close> with \<^verbatim>\<open>file_name: str = Query(...)\<close>: the
  query parameter is required, so a request without it never reaches the handler. The
  argument is the parameter's value in the request, None when the request has none.
\<close>

definition get_generate_presigned_url ::
  "s3_client \<Rightarrow> string option \<Rightarrow> state \<Rightarrow> response \<times> state" where
  "get_generate_presigned_url s3_client query s =
     (case query of
        None \<Rightarrow> (RequestValidationError [''query'', ''file_name''], s)
      | Some file_name \<Rightarrow>
          (case generate_presigned_url s3_client file_name s of
             (Inr content, s') \<Rightarrow> (JSONResponse 200 content, s')
           | (Inl (HTTPException code detail), s') \<Rightarrow>
               (JSONResponse code [(''detail'', detail)], s')))"

text \<open>\<^verbatim>\<open>@app.get("/health")\<close>.\<close>

definition get_health :: "state \<Rightarrow> response \<times> state" where
  "get_health s = (case health_check s of (content, s') \<Rightarrow> (JSONResponse 200 content, s'))"

text \<open>
  The application as the server runs it: one request at a time, each against the
  storage client as it answers at that moment, the state handed from one request to the
  next.
\<close>

datatype request = GET_generate_presigned_url "string option" | GET_health

fun app :: "s3_client \<Rightarrow> request \<Rightarrow> state \<Rightarrow> response \<times> state" where
  "app s3_client (GET_generate_presigned_url query) s =
     get_generate_presigned_url s3_client query s"
| "app s3_client GET_health s = get_health s"

fun serve :: "(s3_client \<times> request) list \<Rightarrow> state \<Rightarrow> response list \<times> state" where
  "serve [] s = ([], s)"
| "serve ((s3_client, r) # rs) s =
     (case app s3_client r s of
        (resp, s') \<Rightarrow> (case serve rs s' of (resps, s'') \<Rightarrow> (resp # resps, s'')))"

text \<open>The module-level settings of a state, without the log and the client's calls.\<close>

definition settings :: "state \<Rightarrow> string option \<times> string option \<times> int" where
  "settings s = (S3_BUCKET s, AWS_REGION s, PRESIGNED_URL_EXPIRATION s)"

subsection \<open>Decimal numerals and integer literals\<close>

text \<open>
  What the properties of the expiration setting are stated against: Python's
  \<^verbatim>\<open>str(n)\<close> of an integer, and the texts that Python's documentation of \<^verbatim>\<open>int\<close>
  calls integer literals: digits with single underscores between them, optionally
  preceded by a sign, optionally surrounded by whitespace.
\<close>

fun str_nat :: "nat \<Rightarrow> string" where
  "str_nat n =
     (if n < 10 then [char_of (48 + n)] else str_nat (n div 10) @ [char_of (48 + n mod 10)])"

declare str_nat.simps [simp del]

definition str_int :: "int \<Rightarrow> string" where
  "str_int i = (if i < 0 then CHR ''-'' # str_nat (nat (- i)) else str_nat (nat i))"

inductive digitpart :: "string \<Rightarrow> bool" where
  one: "is_digit c \<Longrightarrow> digitpart [c]"
| more: "is_digit c \<Longrightarrow> digitpart ds \<Longrightarrow> digitpart (c # ds)"
| underscore: "is_digit c \<Longrightarrow> digitpart ds \<Longrightarrow> digitpart (c # CHR ''_'' # ds)"

code_pred digitpart .

definition integer_literal :: "string \<Rightarrow> bool" where
  "integer_literal v =
     (\<exists>a sg ds b. v = a @ sg @ ds @ b \<and> list_all Py_ISSPACE a \<and>
        (sg = [] \<or> sg = ''+'' \<or> sg = ''-'') \<and> digitpart ds \<and> list_all Py_ISSPACE b)"

text \<open>
  The value of an integer literal: its digits read as a decimal number, negated when
  the literal has a minus sign.
\<close>

definition literal_value :: "string \<Rightarrow> int" where
  "literal_value v =
     (if CHR ''-'' \<in> set v then - int (decimal (filter is_digit v))
      else int (decimal (filter is_digit v)))"

subsection \<open>Concrete states, clients and environments\<close>

definition unconfigured :: state where
  "unconfigured = \<lparr>S3_BUCKET = None, AWS_REGION = None, PRESIGNED_URL_EXPIRATION = 3600,
     logged = [], s3_calls = []\<rparr>"

definition configured :: state where
  "configured = \<lparr>S3_BUCKET = Some ''uploads'', AWS_REGION = Some ''us-east-1'',
     PRESIGNED_URL_EXPIRATION = 900, logged = [], s3_calls = []\<rparr>"

definition signing_client :: s3_client where
  "signing_client call =
     Inr (''https://s3.example/'' @ str_py (Bucket (Params call)) @ ''/'' @ Key (Params call))"

definition denying_client :: s3_client where
  "denying_client call = Inl (ClientError ''AccessDenied'')"

definition broken_client :: s3_client where
  "broken_client call = Inl (Exception ''connection reset'')"

definition earlier_requests :: "(s3_client \<times> request) list" where
  "earlier_requests =
     [(denying_client, GET_generate_presigned_url (Some ''otro.png'')),
      (signing_client, GET_health)]"

definition configured_later :: state where
  "configured_later = snd (serve earlier_requests configured)"

definition started :: "int \<Rightarrow> state" where
  "started n = \<lparr>S3_BUCKET = Some ''uploads'', AWS_REGION = None, PRESIGNED_URL_EXPIRATION = n,
     logged = [], s3_calls = []\<rparr>"

text \<open>
  A library that builds the client for every region name, and one that refuses a
  region name with a space in it.
\<close>

definition any_region :: "string option \<Rightarrow> py_exception option" where
  "any_region region_name = None"

definition strict_regions :: "string option \<Rightarrow> py_exception option" where
  "strict_regions region_name =
     (case region_name of
        None \<Rightarrow> None
      | Some n \<Rightarrow> if CHR '' '' \<in> set n then Some (Exception ''InvalidRegionError'') else None)"

text \<open>
  The transformation of an interpreter that knows the Arabic-Indic digits U+0660 to
  U+0669 (the bytes D9 A0 to D9 A9 in UTF-8) and no other character beyond ASCII.
\<close>

fun arabic_indic :: "string \<Rightarrow> string" where
  "arabic_indic (a # b # cs) =
     (if a = CHR 0xD9 \<and> 160 \<le> (of_char b :: nat) \<and> (of_char b :: nat) \<le> 169
      then char_of ((of_char b :: nat) - 112) # arabic_indic cs
      else (if is_ascii a then a else CHR ''?'') # arabic_indic (b # cs))"
| "arabic_indic [a] = [if is_ascii a then a else CHR ''?'']"
| "arabic_indic [] = []"

definition environ_default :: environ where
  "environ_default = [''S3_BUCKET_NAME'' \<mapsto> ''uploads'']"

definition environ_900 :: environ where
  "environ_900 =
     [''S3_BUCKET_NAME'' \<mapsto> ''uploads'', ''PRESIGNED_URL_EXPIRATION'' \<mapsto> '' +9_00 '']"

definition environ_15m :: environ where
  "environ_15m =
     [''S3_BUCKET_NAME'' \<mapsto> ''uploads'', ''PRESIGNED_URL_EXPIRATION'' \<mapsto> ''15m'']"

definition environ_arabic :: environ where
  "environ_arabic =
     [''S3_BUCKET_NAME'' \<mapsto> ''uploads'',
      ''PRESIGNED_URL_EXPIRATION'' \<mapsto> [CHR 0xD9, CHR 0xA1, CHR 0xD9, CHR 0xA2]]"

definition environ_bad_region :: environ where
  "environ_bad_region =
     [''S3_BUCKET_NAME'' \<mapsto> ''uploads'', ''AWS_REGION'' \<mapsto> ''us east'']"

definition three_requests :: "(s3_client \<times> request) list" where
  "three_requests =
     [(signing_client, GET_generate_presigned_url (Some ''foto.jpg'')),
      (signing_client, GET_health),
      (denying_client, GET_generate_presigned_url (Some ''otro.png''))]"

section \<open>Lemmas\<close>

subsection \<open>The route and its handler\<close>

lemma route_response:
  "fst (get_generate_presigned_url c (Some f) s) =
     (case fst (generate_presigned_url c f s) of
        Inr content \<Rightarrow> JSONResponse 200 content
      | Inl (HTTPException code detail) \<Rightarrow> JSONResponse code [(''detail'', detail)])"
  by (simp add: get_generate_presigned_url_def split: prod.split sum.split http_exception.split)

lemma route_state:
  "snd (get_generate_presigned_url c (Some f) s) = snd (generate_presigned_url c f s)"
  by (simp add: get_generate_presigned_url_def split: prod.split sum.split http_exception.split)

lemma generate_settings:
  "settings (snd (generate_presigned_url c f s)) = settings s"
  by (simp add: generate_presigned_url_def settings_def logger_info_def logger_error_def Let_def
      split: sum.split py_exception.split)

lemma generate_response_eq:
  assumes "S3_BUCKET s = S3_BUCKET s'"
    and "PRESIGNED_URL_EXPIRATION s = PRESIGNED_URL_EXPIRATION s'"
    and "c \<lparr>ClientMethod = ''put_object'',
            Params = \<lparr>Bucket = S3_BUCKET s, Key = f\<rparr>,
            ExpiresIn = PRESIGNED_URL_EXPIRATION s,
            HttpMethod = ''PUT''\<rparr> =
         c' \<lparr>ClientMethod = ''put_object'',
            Params = \<lparr>Bucket = S3_BUCKET s, Key = f\<rparr>,
            ExpiresIn = PRESIGNED_URL_EXPIRATION s,
            HttpMethod = ''PUT''\<rparr>"
  shows "fst (generate_presigned_url c f s) = fst (generate_presigned_url c' f s')"
  using assms
  by (simp add: generate_presigned_url_def Let_def split: sum.split py_exception.split)

lemma app_settings: "settings (snd (app c r s)) = settings s"
proof (cases r)
  case (GET_generate_presigned_url query)
  then show ?thesis
  proof (cases query)
    case None
    with GET_generate_presigned_url show ?thesis
      by (simp add: get_generate_presigned_url_def)
  next
    case (Some f)
    with GET_generate_presigned_url show ?thesis
      by (simp add: route_state generate_settings)
  qed
next
  case GET_health
  then show ?thesis by (simp add: get_health_def health_check_def)
qed

lemma serve_settings: "settings (snd (serve rs s)) = settings s"
proof (induction rs arbitrary: s)
  case Nil
  then show ?case by simp
next
  case (Cons a rs)
  obtain c r where a: "a = (c, r)" by (cases a)
  have "snd (serve ((c, r) # rs) s) = snd (serve rs (snd (app c r s)))"
    by (simp split: prod.split)
  then show ?case
    using Cons.IH [of "snd (app c r s)"] a by (simp add: app_settings)
qed

lemma app_response_settings:
  assumes "settings s = settings s'"
  shows "fst (app c r s) = fst (app c r s')"
proof (cases r)
  case (GET_generate_presigned_url query)
  show ?thesis
  proof (cases query)
    case None
    with GET_generate_presigned_url show ?thesis
      by (simp add: get_generate_presigned_url_def)
  next
    case (Some f)
    from assms have "fst (generate_presigned_url c f s) = fst (generate_presigned_url c f s')"
      by (intro generate_response_eq) (simp_all add: settings_def)
    with GET_generate_presigned_url Some show ?thesis
      by (simp add: route_response)
  qed
next
  case GET_health
  then show ?thesis by (simp add: get_health_def health_check_def)
qed

lemma generate_calls:
  "\<forall>call \<in> set (s3_calls s). ExpiresIn call = PRESIGNED_URL_EXPIRATION s \<Longrightarrow>
   \<forall>call \<in> set (s3_calls (snd (generate_presigned_url c f s))).
     ExpiresIn call = PRESIGNED_URL_EXPIRATION s"
  by (simp add: generate_presigned_url_def logger_info_def logger_error_def Let_def
      split: sum.split py_exception.split)

lemma app_calls:
  assumes "\<forall>call \<in> set (s3_calls s). ExpiresIn call = PRESIGNED_URL_EXPIRATION s"
  shows "\<forall>call \<in> set (s3_calls (snd (app c r s))). ExpiresIn call = PRESIGNED_URL_EXPIRATION s"
proof (cases r)
  case (GET_generate_presigned_url query)
  show ?thesis
  proof (cases query)
    case None
    with GET_generate_presigned_url assms show ?thesis
      by (simp add: get_generate_presigned_url_def)
  next
    case (Some f)
    with GET_generate_presigned_url generate_calls [OF assms, of c f] show ?thesis
      by (simp add: route_state)
  qed
next
  case GET_health
  with assms show ?thesis by (simp add: get_health_def health_check_def)
qed

lemma app_expiration:
  "PRESIGNED_URL_EXPIRATION (snd (app c r s)) = PRESIGNED_URL_EXPIRATION s"
  using app_settings [of c r s] by (simp add: settings_def)

lemma serve_calls:
  "\<forall>call \<in> set (s3_calls s). ExpiresIn call = PRESIGNED_URL_EXPIRATION s \<Longrightarrow>
   \<forall>call \<in> set (s3_calls (snd (serve rs s))). ExpiresIn call = PRESIGNED_URL_EXPIRATION s"
proof (induction rs arbitrary: s)
  case Nil
  then show ?case by simp
next
  case (Cons a rs)
  obtain c r where a: "a = (c, r)" by (cases a)
  have step: "snd (serve ((c, r) # rs) s) = snd (serve rs (snd (app c r s)))"
    by (simp split: prod.split)
  have "\<forall>call \<in> set (s3_calls (snd (app c r s))).
      ExpiresIn call = PRESIGNED_URL_EXPIRATION (snd (app c r s))"
    using app_calls [OF Cons.prems, of c r] by (simp add: app_expiration)
  then have "\<forall>call \<in> set (s3_calls (snd (serve rs (snd (app c r s))))).
      ExpiresIn call = PRESIGNED_URL_EXPIRATION (snd (app c r s))"
    by (rule Cons.IH)
  then show ?case unfolding a step by (simp add: app_expiration)
qed

subsection \<open>Start-up\<close>

lemma startup_unset:
  "environ ''PRESIGNED_URL_EXPIRATION'' = None \<Longrightarrow>
   startup m u cc environ =
     (case cc (environ ''AWS_REGION'') of
        Some e \<Rightarrow> Inl (Line51 e)
      | None \<Rightarrow>
          Inr \<lparr>S3_BUCKET = environ ''S3_BUCKET_NAME'', AWS_REGION = environ ''AWS_REGION'',
               PRESIGNED_URL_EXPIRATION = 3600, logged = [], s3_calls = []\<rparr>)"
  by (simp add: startup_def getenv_default_def getenv_def split: option.split)

lemma startup_set:
  "environ ''PRESIGNED_URL_EXPIRATION'' = Some v \<Longrightarrow>
   startup m u cc environ =
     (case PyLong_FromString m (to_ascii u v) of
        Inl e \<Rightarrow> Inl (Line45 e)
      | Inr n \<Rightarrow>
          (case cc (environ ''AWS_REGION'') of
             Some e \<Rightarrow> Inl (Line51 e)
           | None \<Rightarrow>
               Inr \<lparr>S3_BUCKET = environ ''S3_BUCKET_NAME'', AWS_REGION = environ ''AWS_REGION'',
                    PRESIGNED_URL_EXPIRATION = n, logged = [], s3_calls = []\<rparr>))"
  by (simp add: startup_def getenv_default_def getenv_def int_str_def
      split: sum.split option.split)

lemma startup_state:
  "startup m u cc environ = Inr s \<Longrightarrow> s3_calls s = []"
  by (auto simp: startup_def split: sum.splits option.splits)

lemma startup_line45:
  "startup m u cc environ = Inl (Line45 e) \<longleftrightarrow>
   int_py m u (getenv_default environ ''PRESIGNED_URL_EXPIRATION'' 3600) = Inl e"
  by (auto simp: startup_def split: sum.splits option.splits)

lemma startup_succeeds:
  "(\<exists>s. startup m u cc environ = Inr s) \<longleftrightarrow>
   startup m u cc environ \<noteq> Inl (Line45 ValueError) \<and> cc (environ ''AWS_REGION'') = None"
proof (cases "int_py m u (getenv_default environ ''PRESIGNED_URL_EXPIRATION'' 3600)")
  case (Inl e)
  then show ?thesis by (cases e) (simp add: startup_def)
next
  case (Inr n)
  then show ?thesis
    by (cases "cc (environ ''AWS_REGION'')") (simp_all add: startup_def getenv_def)
qed

subsection \<open>Digits\<close>

lemma digit_char: "d < 10 \<Longrightarrow> PyLong_DigitValue (char_of (48 + d)) = d"
  by (simp add: PyLong_DigitValue_def Let_def)

lemma is_digit_char: "d < 10 \<Longrightarrow> is_digit (char_of (48 + d :: nat))"
  by (simp add: is_digit_def digit_char)

lemma is_digit_not_space: "is_digit c \<Longrightarrow> \<not> Py_ISSPACE c"
  by (auto simp: is_digit_def Py_ISSPACE_def PyLong_DigitValue_def Let_def)

lemma is_digit_not_sign:
  "is_digit c \<Longrightarrow> c \<noteq> CHR ''+'' \<and> c \<noteq> CHR ''-'' \<and> c \<noteq> CHR ''_''"
  by (auto simp: is_digit_def PyLong_DigitValue_def Let_def)

lemma sign_no_digit: "\<not> is_digit CHR ''+''" "\<not> is_digit CHR ''-''"
  by (simp_all add: is_digit_def PyLong_DigitValue_def)

lemma space_not_digit_or_underscore: "Py_ISSPACE c \<Longrightarrow> \<not> digit_or_underscore c"
proof
  assume sp: "Py_ISSPACE c" and "digit_or_underscore c"
  then consider "is_digit c" | "c = CHR ''_''"
    by (auto simp: digit_or_underscore_def)
  then show False
  proof cases
    case 1
    with sp is_digit_not_space show False by blast
  next
    case 2
    with sp show False by (simp add: Py_ISSPACE_def)
  qed
qed

lemma no_double_underscore: "CHR ''_'' \<notin> set ds \<Longrightarrow> \<not> double_underscore ds"
  by (induction ds rule: double_underscore.induct) auto

lemma str_nat_digits: "\<forall>c \<in> set (str_nat n). is_digit c"
proof (induction n rule: str_nat.induct)
  case (1 n)
  show ?case
  proof (cases "n < 10")
    case True
    then show ?thesis by (subst str_nat.simps) (simp add: is_digit_char)
  next
    case False
    have "n mod 10 < 10" by simp
    with 1 False show ?thesis
      by (subst str_nat.simps) (simp add: is_digit_char)
  qed
qed

lemma str_nat_nonempty: "str_nat n \<noteq> []"
  by (subst str_nat.simps) simp

lemma decimal_append:
  "decimal (ds @ [c]) = 10 * decimal ds + PyLong_DigitValue c"
  by (simp add: decimal_def)

lemma decimal_str_nat: "decimal (str_nat n) = n"
proof (induction n rule: str_nat.induct)
  case (1 n)
  show ?case
  proof (cases "n < 10")
    case True
    then show ?thesis
      by (subst str_nat.simps) (simp add: decimal_def digit_char)
  next
    case False
    have "n mod 10 < 10" by simp
    then have "PyLong_DigitValue (char_of (48 + n mod 10)) = n mod 10"
      by (rule digit_char)
    with 1 False show ?thesis
      by (subst str_nat.simps) (simp add: decimal_append)
  qed
qed

subsection \<open>The parser reads numerals\<close>

lemma int_str_digits:
  assumes ds: "ds \<noteq> []" "\<forall>c \<in> set ds. is_digit c"
    and lim: "m = 0 \<or> length ds \<le> m"
  shows "PyLong_FromString m ds = Inr (int (decimal ds))"
proof -
  from ds have hd: "is_digit (hd ds)" and lst: "is_digit (last ds)" by auto
  have sp: "dropWhile Py_ISSPACE ds = ds"
    using ds(1) hd by (cases ds) (auto simp: is_digit_not_space)
  have sg: "hd ds \<noteq> CHR ''+''" "hd ds \<noteq> CHR ''-''" "hd ds \<noteq> CHR ''_''" "last ds \<noteq> CHR ''_''"
    using hd lst is_digit_not_sign by auto
  have tk: "takeWhile digit_or_underscore ds = ds" "dropWhile digit_or_underscore ds = []"
    using ds(2) by (auto simp: digit_or_underscore_def)
  have un: "\<not> double_underscore ds"
    using ds(2) is_digit_not_sign by (intro no_double_underscore) auto
  have fl: "filter is_digit ds = ds" using ds(2) by simp
  show ?thesis
    using ds(1) lim sg un by (auto simp add: PyLong_FromString_def Let_def sp tk fl)
qed

lemma int_str_minus_digits:
  assumes ds: "ds \<noteq> []" "\<forall>c \<in> set ds. is_digit c"
    and lim: "m = 0 \<or> length ds \<le> m"
  shows "PyLong_FromString m (CHR ''-'' # ds) = Inr (- int (decimal ds))"
proof -
  from ds have hd: "is_digit (hd ds)" and lst: "is_digit (last ds)" by auto
  have sg: "hd ds \<noteq> CHR ''_''" "last ds \<noteq> CHR ''_''"
    using hd lst is_digit_not_sign by auto
  have tk: "takeWhile digit_or_underscore ds = ds" "dropWhile digit_or_underscore ds = []"
    using ds(2) by (auto simp: digit_or_underscore_def)
  have un: "\<not> double_underscore ds"
    using ds(2) is_digit_not_sign by (intro no_double_underscore) auto
  have fl: "filter is_digit ds = ds" using ds(2) by simp
  have nsp: "\<not> Py_ISSPACE CHR ''-''" by (simp add: Py_ISSPACE_def)
  show ?thesis
    using ds(1) lim sg un by (auto simp add: PyLong_FromString_def Let_def nsp tk fl)
qed

lemma int_str_str_int:
  assumes "m = 0 \<or> length (str_nat (nat \<bar>i\<bar>)) \<le> m"
  shows "PyLong_FromString m (str_int i) = Inr i"
proof (cases "i < 0")
  case True
  then have "PyLong_FromString m (str_int i) = Inr (- int (decimal (str_nat (nat (- i)))))"
    using assms str_nat_nonempty str_nat_digits
    by (simp add: str_int_def int_str_minus_digits)
  with True show ?thesis by (simp add: decimal_str_nat)
next
  case False
  then have "PyLong_FromString m (str_int i) = Inr (int (decimal (str_nat (nat i))))"
    using assms str_nat_nonempty str_nat_digits
    by (simp add: str_int_def int_str_digits)
  with False show ?thesis by (simp add: decimal_str_nat)
qed

subsection \<open>The parser accepts the integer literals and nothing else\<close>

lemma digitpart_shape:
  "digitpart ds \<Longrightarrow>
   ds \<noteq> [] \<and> is_digit (hd ds) \<and> is_digit (last ds) \<and>
   (\<forall>c \<in> set ds. digit_or_underscore c) \<and> \<not> double_underscore ds"
proof (induction rule: digitpart.induct)
  case (one c)
  then show ?case by (simp add: digit_or_underscore_def)
next
  case (more c ds)
  then obtain d ds' where ds: "ds = d # ds'" by (cases ds) auto
  with more show ?case
    using is_digit_not_sign [of c] by (auto simp: digit_or_underscore_def)
next
  case (underscore c ds)
  then obtain d ds' where ds: "ds = d # ds'" by (cases ds) auto
  with underscore show ?case
    using is_digit_not_sign [of c] is_digit_not_sign [of d]
    by (auto simp: digit_or_underscore_def)
qed

lemma shape_digitpart:
  "ds \<noteq> [] \<Longrightarrow> \<forall>c \<in> set ds. digit_or_underscore c \<Longrightarrow> hd ds \<noteq> CHR ''_'' \<Longrightarrow>
   last ds \<noteq> CHR ''_'' \<Longrightarrow> \<not> double_underscore ds \<Longrightarrow> digitpart ds"
proof (induction "length ds" arbitrary: ds rule: less_induct)
  case less
  from less.prems obtain c rest where ds: "ds = c # rest" by (cases ds) auto
  with less.prems have c: "is_digit c" by (auto simp: digit_or_underscore_def)
  show ?case
  proof (cases rest)
    case Nil
    with ds c show ?thesis by (simp add: digitpart.one)
  next
    case (Cons r rest')
    show ?thesis
    proof (cases "r = CHR ''_''")
      case False
      have "digitpart rest"
        using less.prems ds Cons False by (intro less.hyps) auto
      with c ds show ?thesis by (simp add: digitpart.more)
    next
      case True
      with less.prems ds Cons have ne: "rest' \<noteq> []" by auto
      then obtain q rest'' where r': "rest' = q # rest''" by (cases rest') auto
      have "digitpart rest'"
        using less.prems ds Cons True ne r' by (intro less.hyps) auto
      with c ds Cons True show ?thesis by (simp add: digitpart.underscore)
    qed
  qed
qed

lemma spaces_after:
  assumes "list_all Py_ISSPACE b"
  shows "takeWhile digit_or_underscore b = []" "dropWhile digit_or_underscore b = b"
    "dropWhile Py_ISSPACE b = []" "filter is_digit b = []"
proof -
  have sp: "\<forall>c \<in> set b. Py_ISSPACE c" using assms by (simp add: list_all_iff)
  then have nd: "\<forall>c \<in> set b. \<not> digit_or_underscore c"
    by (simp add: space_not_digit_or_underscore)
  show "takeWhile digit_or_underscore b = []" using nd by (cases b) simp_all
  show "dropWhile digit_or_underscore b = b" using nd by (cases b) simp_all
  show "dropWhile Py_ISSPACE b = []" using sp by simp
  show "filter is_digit b = []"
    using sp is_digit_not_space by (auto simp: filter_empty_conv)
qed

lemma body_then_spaces:
  assumes "digitpart ds" "list_all Py_ISSPACE b"
  shows "takeWhile digit_or_underscore (ds @ b) = ds"
    and "dropWhile digit_or_underscore (ds @ b) = b"
  using digitpart_shape [OF assms(1)] spaces_after [OF assms(2)]
  by (simp_all add: takeWhile_append2 dropWhile_append2)

lemma int_str_body:
  assumes "digitpart ds" "list_all Py_ISSPACE b"
  shows "PyLong_FromString m (ds @ b) =
     (if 0 < m \<and> m < length (filter is_digit ds) then Inl ValueError
      else Inr (int (decimal (filter is_digit ds))))"
proof -
  note sh = digitpart_shape [OF assms(1)]
  from sh obtain d ds' where ds: "ds = d # ds'" by (cases ds) auto
  with sh have d: "is_digit d" by simp
  have sp: "dropWhile Py_ISSPACE (ds @ b) = ds @ b"
    using ds d by (simp add: is_digit_not_space)
  have hd: "hd (ds @ b) = d" "ds @ b \<noteq> []" by (simp_all add: ds)
  have sg: "d \<noteq> CHR ''+''" "d \<noteq> CHR ''-''" "d \<noteq> CHR ''_''"
    using is_digit_not_sign [OF d] by simp_all
  have lst: "last ds \<noteq> CHR ''_''" using sh is_digit_not_sign by blast
  have hds: "hd ds = d" by (simp add: ds)
  show ?thesis
    unfolding PyLong_FromString_def Let_def sp
    using sh sg lst hds
    by (simp add: hd body_then_spaces [OF assms] spaces_after [OF assms(2)])
qed

lemma int_str_signed_body:
  assumes "digitpart ds" "list_all Py_ISSPACE b" "sg = CHR ''+'' \<or> sg = CHR ''-''"
  shows "PyLong_FromString m (sg # ds @ b) =
     (if 0 < m \<and> m < length (filter is_digit ds) then Inl ValueError
      else Inr (if sg = CHR ''-'' then - int (decimal (filter is_digit ds))
                else int (decimal (filter is_digit ds))))"
proof -
  note sh = digitpart_shape [OF assms(1)]
  have nsp: "\<not> Py_ISSPACE sg" using assms(3) by (auto simp: Py_ISSPACE_def)
  have lst: "last ds \<noteq> CHR ''_''" "hd ds \<noteq> CHR ''_''" using sh is_digit_not_sign by blast+
  show ?thesis
    unfolding PyLong_FromString_def Let_def
    using sh lst assms(3) nsp
    by (auto simp add: body_then_spaces [OF assms(1,2)] spaces_after [OF assms(2)])
qed

lemma int_str_leading_spaces:
  "list_all Py_ISSPACE a \<Longrightarrow> PyLong_FromString m (a @ s) = PyLong_FromString m s"
  by (simp add: PyLong_FromString_def dropWhile_append2 list_all_iff)

lemma literal_digits:
  assumes "list_all Py_ISSPACE a" "sg = [] \<or> sg = ''+'' \<or> sg = ''-''" "list_all Py_ISSPACE b"
  shows "filter is_digit (a @ sg @ ds @ b) = filter is_digit ds"
proof -
  have "filter is_digit a = []" using assms(1) by (rule spaces_after(4))
  moreover have "filter is_digit b = []" using assms(3) by (rule spaces_after(4))
  moreover have "filter is_digit sg = []" using assms(2) sign_no_digit by auto
  ultimately show ?thesis by simp
qed

lemma int_str_literal:
  assumes "integer_literal v"
  shows "PyLong_FromString m v = Inl ValueError \<longleftrightarrow> 0 < m \<and> m < length (filter is_digit v)"
proof -
  from assms obtain a sg ds b where v: "v = a @ sg @ ds @ b"
    and a: "list_all Py_ISSPACE a" and sg: "sg = [] \<or> sg = ''+'' \<or> sg = ''-''"
    and ds: "digitpart ds" and b: "list_all Py_ISSPACE b"
    unfolding integer_literal_def by blast
  have n: "filter is_digit v = filter is_digit ds"
    unfolding v using a sg b by (rule literal_digits)
  have r: "PyLong_FromString m v = PyLong_FromString m (sg @ ds @ b)"
    unfolding v using a by (rule int_str_leading_spaces)
  from sg consider "sg = []" | "sg = ''+''" | "sg = ''-''" by blast
  then have "PyLong_FromString m (sg @ ds @ b) = Inl ValueError \<longleftrightarrow>
      0 < m \<and> m < length (filter is_digit ds)"
  proof cases
    case 1
    then show ?thesis by (simp add: int_str_body [OF ds b])
  next
    case 2
    then show ?thesis by (simp add: int_str_signed_body [OF ds b])
  next
    case 3
    then show ?thesis by (simp add: int_str_signed_body [OF ds b])
  qed
  with r n show ?thesis by simp
qed

lemma int_str_accepts_literal:
  assumes "PyLong_FromString m v = Inr n"
  shows "integer_literal v"
proof -
  define a where "a = takeWhile Py_ISSPACE v"
  define s1 where "s1 = dropWhile Py_ISSPACE v"
  define sg where
    "sg = (if s1 \<noteq> [] \<and> (hd s1 = CHR ''+'' \<or> hd s1 = CHR ''-'') then [hd s1] else [])"
  define s2 where
    "s2 = (if s1 \<noteq> [] \<and> (hd s1 = CHR ''+'' \<or> hd s1 = CHR ''-'') then tl s1 else s1)"
  define ds where "ds = takeWhile digit_or_underscore s2"
  define b where "b = dropWhile digit_or_underscore s2"
  have "PyLong_FromString m v =
      (if ds = [] \<or> hd ds = CHR ''_'' \<or> last ds = CHR ''_'' \<or> double_underscore ds
            \<or> dropWhile Py_ISSPACE b \<noteq> []
       then Inl ValueError
       else if 0 < m \<and> m < length (filter is_digit ds)
       then Inl ValueError
       else Inr (if s1 \<noteq> [] \<and> hd s1 = CHR ''-'' then - int (decimal (filter is_digit ds))
                 else int (decimal (filter is_digit ds))))"
    unfolding PyLong_FromString_def Let_def ds_def b_def s2_def s1_def ..
  with assms have ok: "ds \<noteq> []" "hd ds \<noteq> CHR ''_''" "last ds \<noteq> CHR ''_''"
    "\<not> double_underscore ds" "dropWhile Py_ISSPACE b = []"
    by (simp_all split: if_splits)
  have "\<forall>c \<in> set ds. digit_or_underscore c"
    unfolding ds_def by (auto dest: set_takeWhileD)
  with ok have "digitpart ds" by (intro shape_digitpart) auto
  moreover have "list_all Py_ISSPACE a"
    unfolding a_def by (auto simp: list_all_iff dest: set_takeWhileD)
  moreover have "list_all Py_ISSPACE b"
    using ok(5) by (auto simp: list_all_iff)
  moreover have "sg = [] \<or> sg = ''+'' \<or> sg = ''-''"
    unfolding sg_def by auto
  moreover have "v = a @ sg @ ds @ b"
  proof -
    have "v = a @ s1" unfolding a_def s1_def by simp
    moreover have "s1 = sg @ s2" unfolding sg_def s2_def by auto
    moreover have "s2 = ds @ b" unfolding ds_def b_def by simp
    ultimately show ?thesis by simp
  qed
  ultimately show ?thesis unfolding integer_literal_def by blast
qed

lemma int_str_fails_iff:
  "PyLong_FromString m v = Inl ValueError \<longleftrightarrow>
   \<not> integer_literal v \<or> (0 < m \<and> m < length (filter is_digit v))"
proof (cases "integer_literal v")
  case True
  then show ?thesis by (simp add: int_str_literal)
next
  case False
  have "PyLong_FromString m v = Inl ValueError"
  proof (cases "PyLong_FromString m v")
    case (Inl e)
    then show ?thesis by (cases e) simp
  next
    case (Inr n)
    with False show ?thesis using int_str_accepts_literal by blast
  qed
  with False show ?thesis by simp
qed

subsection \<open>The value the parser returns\<close>

lemma no_minus:
  "list_all Py_ISSPACE a \<Longrightarrow> CHR ''-'' \<notin> set a"
  "digitpart ds \<Longrightarrow> CHR ''-'' \<notin> set ds"
proof -
  have sp: "\<not> Py_ISSPACE CHR ''-''" by (simp add: Py_ISSPACE_def)
  have du: "\<not> digit_or_underscore CHR ''-''"
    by (simp add: digit_or_underscore_def sign_no_digit)
  show "list_all Py_ISSPACE a \<Longrightarrow> CHR ''-'' \<notin> set a"
    using sp by (auto simp: list_all_iff)
  show "digitpart ds \<Longrightarrow> CHR ''-'' \<notin> set ds"
    using du digitpart_shape [of ds] by auto
qed

lemma literal_parse:
  assumes "integer_literal v" "\<not> (0 < m \<and> m < length (filter is_digit v))"
  shows "PyLong_FromString m v = Inr (literal_value v)"
proof -
  from assms(1) obtain a sg ds b where v: "v = a @ sg @ ds @ b"
    and a: "list_all Py_ISSPACE a" and sg: "sg = [] \<or> sg = ''+'' \<or> sg = ''-''"
    and ds: "digitpart ds" and b: "list_all Py_ISSPACE b"
    unfolding integer_literal_def by blast
  have n: "filter is_digit v = filter is_digit ds"
    unfolding v using a sg b by (rule literal_digits)
  have lim: "\<not> (0 < m \<and> m < length (filter is_digit ds))" using assms(2) n by simp
  have r: "PyLong_FromString m v = PyLong_FromString m (sg @ ds @ b)"
    unfolding v using a by (rule int_str_leading_spaces)
  have mi: "CHR ''-'' \<in> set v \<longleftrightarrow> sg = ''-''"
    unfolding v using no_minus(1) [OF a] no_minus(1) [OF b] no_minus(2) [OF ds] sg by auto
  from sg consider "sg = []" | "sg = ''+''" | "sg = ''-''" by blast
  then show ?thesis
  proof cases
    case 1
    with r lim mi n show ?thesis
      by (simp add: int_str_body [OF ds b] literal_value_def)
  next
    case 2
    with r lim mi n show ?thesis
      by (simp add: int_str_signed_body [OF ds b] literal_value_def)
  next
    case 3
    with r lim mi n show ?thesis
      by (simp add: int_str_signed_body [OF ds b] literal_value_def)
  qed
qed

lemma parse_value:
  assumes "PyLong_FromString m v = Inr n"
  shows "n = literal_value v"
proof -
  have lit: "integer_literal v" using assms by (rule int_str_accepts_literal)
  have "\<not> (0 < m \<and> m < length (filter is_digit v))"
    using assms int_str_literal [OF lit, of m] by auto
  with lit have "PyLong_FromString m v = Inr (literal_value v)" by (rule literal_parse)
  with assms show ?thesis by simp
qed

lemma str_nat_digitpart: "digitpart (str_nat n)"
proof (rule shape_digitpart)
  show "str_nat n \<noteq> []" by (rule str_nat_nonempty)
  show all: "\<forall>c \<in> set (str_nat n). digit_or_underscore c"
    using str_nat_digits [of n] by (simp add: digit_or_underscore_def)
  have "is_digit (hd (str_nat n))" "is_digit (last (str_nat n))"
    using str_nat_digits [of n] str_nat_nonempty [of n] by auto
  then show "hd (str_nat n) \<noteq> CHR ''_''" "last (str_nat n) \<noteq> CHR ''_''"
    using is_digit_not_sign by blast+
  show "\<not> double_underscore (str_nat n)"
    using str_nat_digits [of n] is_digit_not_sign by (intro no_double_underscore) auto
qed

lemma str_int_literal: "integer_literal (str_int i)"
proof -
  define sg where "sg = (if i < 0 then ''-'' else [])"
  define ds where "ds = (if i < 0 then str_nat (nat (- i)) else str_nat (nat i))"
  have "str_int i = [] @ sg @ ds @ []"
    by (simp add: str_int_def sg_def ds_def)
  moreover have "sg = [] \<or> sg = ''+'' \<or> sg = ''-''" by (simp add: sg_def)
  moreover have "digitpart ds" by (simp add: ds_def str_nat_digitpart)
  moreover have "list_all Py_ISSPACE []" by simp
  ultimately show ?thesis unfolding integer_literal_def by blast
qed

lemma str_int_value: "literal_value (str_int i) = i"
proof -
  have "PyLong_FromString 0 (str_int i) = Inr i" by (rule int_str_str_int) simp
  then show ?thesis using parse_value by fastforce
qed

section \<open>Properties\<close>

text \<open>
  C1. When the bucket setting is missing (None) or empty, every request that reaches the
  handler is answered with status 500 and the detail that explains the missing bucket
  configuration, and the storage client receives no call: the record of its calls is
  the one from before the request.
\<close>

theorem missing_bucket_500:
  "\<not> bool_py (S3_BUCKET s) \<Longrightarrow>
   fst (generate_presigned_url s3_client file_name s) =
     Inl (HTTPException 500 ''Error interno del servidor: Bucket S3 no configurado.'') \<and>
   fst (get_generate_presigned_url s3_client (Some file_name) s) =
     JSONResponse 500 [(''detail'', ''Error interno del servidor: Bucket S3 no configurado.'')] \<and>
   s3_calls (snd (generate_presigned_url s3_client file_name s)) = s3_calls s"
  by (simp add: generate_presigned_url_def get_generate_presigned_url_def logger_error_def)

theorem missing_bucket_500_witness:
  "\<not> bool_py (S3_BUCKET unconfigured) \<and>
   fst (generate_presigned_url signing_client ''foto.jpg'' unconfigured) =
     Inl (HTTPException 500 ''Error interno del servidor: Bucket S3 no configurado.'') \<and>
   fst (get_generate_presigned_url signing_client (Some ''foto.jpg'') unconfigured) =
     JSONResponse 500 [(''detail'', ''Error interno del servidor: Bucket S3 no configurado.'')] \<and>
   s3_calls (snd (generate_presigned_url signing_client ''foto.jpg'' unconfigured)) = []"
  using missing_bucket_500 [of unconfigured signing_client "''foto.jpg''"]
  by (simp add: unconfigured_def)

text \<open>
  C2. When the bucket is configured and the storage client returns a URL for the call
  the handler makes, the request is answered with status 200 and a body of exactly two
  fields: presigned_url, holding that URL, and object_key, holding the file_name of the
  request.
\<close>

theorem success_200:
  "bool_py (S3_BUCKET s) \<Longrightarrow>
   s3_client \<lparr>ClientMethod = ''put_object'',
              Params = \<lparr>Bucket = S3_BUCKET s, Key = file_name\<rparr>,
              ExpiresIn = PRESIGNED_URL_EXPIRATION s,
              HttpMethod = ''PUT''\<rparr> = Inr url \<Longrightarrow>
   fst (get_generate_presigned_url s3_client (Some file_name) s) =
     JSONResponse 200 [(''presigned_url'', url), (''object_key'', file_name)]"
  by (simp add: generate_presigned_url_def get_generate_presigned_url_def)

theorem success_200_witness:
  "bool_py (S3_BUCKET configured) \<and>
   signing_client \<lparr>ClientMethod = ''put_object'',
              Params = \<lparr>Bucket = S3_BUCKET configured, Key = ''foto.jpg''\<rparr>,
              ExpiresIn = PRESIGNED_URL_EXPIRATION configured,
              HttpMethod = ''PUT''\<rparr> = Inr ''https://s3.example/uploads/foto.jpg'' \<and>
   fst (get_generate_presigned_url signing_client (Some ''foto.jpg'') configured) =
     JSONResponse 200
       [(''presigned_url'', ''https://s3.example/uploads/foto.jpg''),
        (''object_key'', ''foto.jpg'')]"
  using success_200 [of configured signing_client "''foto.jpg''"
      "''https://s3.example/uploads/foto.jpg''"]
  by (simp add: configured_def signing_client_def)

text \<open>
  C3. When the bucket is configured, the handler calls the storage client's
  generate_presigned_url exactly once, whatever the client answers: the record of calls
  grows by one call, for the client method put_object with HttpMethod PUT, with the
  configured bucket as Bucket, the file_name of the request as Key and
  PRESIGNED_URL_EXPIRATION as ExpiresIn.
\<close>

theorem presign_called_once:
  "bool_py (S3_BUCKET s) \<Longrightarrow>
   s3_calls (snd (generate_presigned_url s3_client file_name s)) =
     s3_calls s @
     [\<lparr>ClientMethod = ''put_object'',
       Params = \<lparr>Bucket = S3_BUCKET s, Key = file_name\<rparr>,
       ExpiresIn = PRESIGNED_URL_EXPIRATION s,
       HttpMethod = ''PUT''\<rparr>]"
  by (simp add: generate_presigned_url_def logger_info_def logger_error_def Let_def
      split: sum.split py_exception.split)

theorem presign_called_once_witness:
  "bool_py (S3_BUCKET configured) \<and>
   s3_calls (snd (generate_presigned_url denying_client ''foto.jpg'' configured)) =
     [\<lparr>ClientMethod = ''put_object'',
       Params = \<lparr>Bucket = Some ''uploads'', Key = ''foto.jpg''\<rparr>,
       ExpiresIn = 900,
       HttpMethod = ''PUT''\<rparr>]"
  using presign_called_once [of configured denying_client "''foto.jpg''"]
  by (simp add: configured_def)

text \<open>
  C4. Every request to GET /health is answered with the body \<^verbatim>\<open>{"status": "ok"}\<close>,
  whatever the module state is: the handler returns that dictionary, and the route sends
  it with status 200.
\<close>

theorem health_check_ok:
  "fst (health_check s) = [(''status'', ''ok'')] \<and>
   fst (get_health s) = JSONResponse 200 [(''status'', ''ok'')]"
  by (simp add: health_check_def get_health_def)

text \<open>
  C5. When the storage client raises a ClientError, the request is answered with status
  500, and the detail is a fixed prefix followed by the text of that error.
\<close>

theorem client_error_500:
  "bool_py (S3_BUCKET s) \<Longrightarrow>
   s3_client \<lparr>ClientMethod = ''put_object'',
              Params = \<lparr>Bucket = S3_BUCKET s, Key = file_name\<rparr>,
              ExpiresIn = PRESIGNED_URL_EXPIRATION s,
              HttpMethod = ''PUT''\<rparr> = Inl (ClientError e) \<Longrightarrow>
   fst (get_generate_presigned_url s3_client (Some file_name) s) =
     JSONResponse 500 [(''detail'', ''No se pudo generar la URL firmada: '' @ e)]"
  by (simp add: generate_presigned_url_def get_generate_presigned_url_def)

theorem client_error_500_witness:
  "bool_py (S3_BUCKET configured) \<and>
   denying_client \<lparr>ClientMethod = ''put_object'',
              Params = \<lparr>Bucket = S3_BUCKET configured, Key = ''foto.jpg''\<rparr>,
              ExpiresIn = PRESIGNED_URL_EXPIRATION configured,
              HttpMethod = ''PUT''\<rparr> = Inl (ClientError ''AccessDenied'') \<and>
   fst (get_generate_presigned_url denying_client (Some ''foto.jpg'') configured) =
     JSONResponse 500 [(''detail'', ''No se pudo generar la URL firmada: AccessDenied'')]"
  using client_error_500 [of configured denying_client "''foto.jpg''" "''AccessDenied''"]
  by (simp add: configured_def denying_client_def)

text \<open>
  C6. When the storage client raises an exception that is not a ClientError, the request
  is answered with status 500 and one fixed detail: the same text whatever the text of
  the exception is, so nothing of the exception reaches the response.
\<close>

theorem unexpected_error_500:
  "bool_py (S3_BUCKET s) \<Longrightarrow>
   s3_client \<lparr>ClientMethod = ''put_object'',
              Params = \<lparr>Bucket = S3_BUCKET s, Key = file_name\<rparr>,
              ExpiresIn = PRESIGNED_URL_EXPIRATION s,
              HttpMethod = ''PUT''\<rparr> = Inl (Exception e) \<Longrightarrow>
   fst (get_generate_presigned_url s3_client (Some file_name) s) =
     JSONResponse 500 [(''detail'', ''Error interno inesperado.'')]"
  by (simp add: generate_presigned_url_def get_generate_presigned_url_def)

theorem unexpected_error_500_witness:
  "bool_py (S3_BUCKET configured) \<and>
   broken_client \<lparr>ClientMethod = ''put_object'',
              Params = \<lparr>Bucket = S3_BUCKET configured, Key = ''foto.jpg''\<rparr>,
              ExpiresIn = PRESIGNED_URL_EXPIRATION configured,
              HttpMethod = ''PUT''\<rparr> = Inl (Exception ''connection reset'') \<and>
   fst (get_generate_presigned_url broken_client (Some ''foto.jpg'') configured) =
     JSONResponse 500 [(''detail'', ''Error interno inesperado.'')]"
  using unexpected_error_500 [of configured broken_client "''foto.jpg''" "''connection reset''"]
  by (simp add: configured_def broken_client_def)



text \<open>
  C8, as stated, does not hold: file_name is declared as a required query parameter, so
  a request without it is refused by the framework's validation before the handler runs,
  and that answer has status 422, which is neither 200 nor 500.
\<close>

theorem missing_file_name_422:
  "status_code (fst (get_generate_presigned_url signing_client None configured)) = 422"
  by (simp add: get_generate_presigned_url_def)

text \<open>
  C8, amended. A request to GET /generate-presigned-url that carries a file_name is
  answered with status 200 or with status 500, and with no other status; a request
  without the required file_name parameter is answered with status 422.
\<close>

theorem status_200_500_or_422:
  "status_code (fst (get_generate_presigned_url s3_client (Some file_name) s)) \<in> {200, 500} \<and>
   status_code (fst (get_generate_presigned_url s3_client None s)) = 422"
  by (simp add: generate_presigned_url_def get_generate_presigned_url_def Let_def
      split: sum.split py_exception.split)

text \<open>
  C9. The handlers are stateless and deterministic. Two invocations of
  generate_presigned_url with the same file_name, in states with the same S3_BUCKET and
  PRESIGNED_URL_EXPIRATION and with the same answer of the storage client to the call,
  give the same result, whatever else differs between the two states (the log, the
  record of calls). Neither handler changes the module-level settings. So the response
  to a request after any sequence of earlier requests is the response it gets when it
  comes first.
\<close>

theorem handlers_stateless:
  assumes "S3_BUCKET s = S3_BUCKET s'"
    and "PRESIGNED_URL_EXPIRATION s = PRESIGNED_URL_EXPIRATION s'"
    and "c \<lparr>ClientMethod = ''put_object'',
            Params = \<lparr>Bucket = S3_BUCKET s, Key = f\<rparr>,
            ExpiresIn = PRESIGNED_URL_EXPIRATION s,
            HttpMethod = ''PUT''\<rparr> =
         c' \<lparr>ClientMethod = ''put_object'',
            Params = \<lparr>Bucket = S3_BUCKET s, Key = f\<rparr>,
            ExpiresIn = PRESIGNED_URL_EXPIRATION s,
            HttpMethod = ''PUT''\<rparr>"
  shows "fst (generate_presigned_url c f s) = fst (generate_presigned_url c' f s') \<and>
         settings (snd (generate_presigned_url c f s)) = settings s \<and>
         fst (health_check s) = fst (health_check s') \<and>
         settings (snd (health_check s)) = settings s \<and>
         fst (app c r (snd (serve earlier s))) = fst (app c r s)"
proof -
  have "fst (app c r (snd (serve earlier s))) = fst (app c r s)"
    by (rule app_response_settings) (rule serve_settings)
  moreover from assms
  have "fst (generate_presigned_url c f s) = fst (generate_presigned_url c' f s')"
    by (rule generate_response_eq)
  ultimately show ?thesis
    by (simp add: generate_settings health_check_def)
qed

theorem handlers_stateless_witness:
  "S3_BUCKET configured = S3_BUCKET configured_later \<and>
   PRESIGNED_URL_EXPIRATION configured = PRESIGNED_URL_EXPIRATION configured_later \<and>
   logged configured \<noteq> logged configured_later \<and>
   fst (generate_presigned_url signing_client ''foto.jpg'' configured) =
     fst (generate_presigned_url signing_client ''foto.jpg'' configured_later) \<and>
   fst (generate_presigned_url signing_client ''foto.jpg'' configured_later) =
     Inr [(''presigned_url'', ''https://s3.example/uploads/foto.jpg''),
          (''object_key'', ''foto.jpg'')] \<and>
   settings (snd (generate_presigned_url signing_client ''foto.jpg'' configured)) =
     settings configured \<and>
   fst (app signing_client (GET_generate_presigned_url (Some ''foto.jpg'')) configured_later) =
     fst (app signing_client (GET_generate_presigned_url (Some ''foto.jpg'')) configured)"
proof -
  have u: "configured_later =
      configured\<lparr>logged := [(ERROR, ''Error generando URL firmada para otro.png: AccessDenied'')],
        s3_calls := [\<lparr>ClientMethod = ''put_object'',
            Params = \<lparr>Bucket = Some ''uploads'', Key = ''otro.png''\<rparr>,
            ExpiresIn = 900, HttpMethod = ''PUT''\<rparr>]\<rparr>"
    by (simp add: configured_later_def earlier_requests_def configured_def
        get_generate_presigned_url_def generate_presigned_url_def
        denying_client_def get_health_def health_check_def logger_error_def)
  have g: "fst (generate_presigned_url signing_client ''foto.jpg'' configured_later) =
     Inr [(''presigned_url'', ''https://s3.example/uploads/foto.jpg''),
          (''object_key'', ''foto.jpg'')]"
    by (simp add: u configured_def generate_presigned_url_def signing_client_def Let_def)
  have l: "logged configured \<noteq> logged configured_later"
    by (simp add: u) (simp add: configured_def)
  have h1: "S3_BUCKET configured = S3_BUCKET configured_later"
    and h2: "PRESIGNED_URL_EXPIRATION configured = PRESIGNED_URL_EXPIRATION configured_later"
    by (simp_all add: u)
  note th = handlers_stateless [where s = configured and s' = configured_later
      and c = signing_client and c' = signing_client and f = "''foto.jpg''"
      and r = "GET_generate_presigned_url (Some ''foto.jpg'')"
      and earlier = earlier_requests, OF h1 h2 refl, folded configured_later_def]
  from th h1 h2 g l show ?thesis by blast
qed

text \<open>
  C10. The expiration is fixed when the module is imported, at line 45, and every URL
  generated afterwards uses it. When PRESIGNED_URL_EXPIRATION is not set, line 45 does
  not fail, and in the module that starts the expiration is 3600: every call the storage
  client receives, in any sequence of requests, has ExpiresIn 3600. When the variable is
  set, its value (made ASCII as \<^verbatim>\<open>int\<close> does) is read as a decimal integer: line
  45 raises ValueError, and the module does not start, exactly when the value is not an
  integer literal or has more digits than the interpreter's limit; and in the module that
  starts the expiration is the value of that literal, which every call the storage client
  receives then carries. The module starts exactly when line 45 does not fail and the
  library builds the client for AWS_REGION. The decimal numeral of every integer i is an
  integer literal of value i.
\<close>

theorem expiration_from_environment:
  "(environ ''PRESIGNED_URL_EXPIRATION'' = None \<longrightarrow>
      startup m unicode create_client environ \<noteq> Inl (Line45 ValueError) \<and>
      (startup m unicode create_client environ = Inr s \<longrightarrow>
         PRESIGNED_URL_EXPIRATION s = 3600 \<and>
         (\<forall>call \<in> set (s3_calls (snd (serve rs s))). ExpiresIn call = 3600))) \<and>
   (environ ''PRESIGNED_URL_EXPIRATION'' = Some v \<longrightarrow>
      (startup m unicode create_client environ = Inl (Line45 ValueError) \<longleftrightarrow>
         \<not> integer_literal (to_ascii unicode v) \<or>
         (0 < m \<and> m < length (filter is_digit (to_ascii unicode v)))) \<and>
      (startup m unicode create_client environ = Inr s \<longrightarrow>
         PRESIGNED_URL_EXPIRATION s = literal_value (to_ascii unicode v) \<and>
         (\<forall>call \<in> set (s3_calls (snd (serve rs s))).
            ExpiresIn call = literal_value (to_ascii unicode v)))) \<and>
   ((\<exists>s'. startup m unicode create_client environ = Inr s') \<longleftrightarrow>
      startup m unicode create_client environ \<noteq> Inl (Line45 ValueError) \<and>
      create_client (environ ''AWS_REGION'') = None) \<and>
   integer_literal (str_int i) \<and> literal_value (str_int i) = i"
proof -
  let ?st = "startup m unicode create_client environ"
  have calls: "\<forall>call \<in> set (s3_calls (snd (serve rs s))).
      ExpiresIn call = PRESIGNED_URL_EXPIRATION s" if "?st = Inr s"
  proof (rule serve_calls)
    from that have "s3_calls s = []" by (rule startup_state)
    then show "\<forall>call \<in> set (s3_calls s). ExpiresIn call = PRESIGNED_URL_EXPIRATION s"
      by simp
  qed
  have unset_ok: "?st \<noteq> Inl (Line45 ValueError)"
    if "environ ''PRESIGNED_URL_EXPIRATION'' = None"
    using that by (simp add: startup_line45 getenv_default_def)
  have unset_val: "PRESIGNED_URL_EXPIRATION s = 3600"
    if "environ ''PRESIGNED_URL_EXPIRATION'' = None" "?st = Inr s"
    using that startup_unset [of environ m unicode create_client]
    by (auto split: option.splits)
  have set_fail: "?st = Inl (Line45 ValueError) \<longleftrightarrow>
         \<not> integer_literal (to_ascii unicode v) \<or>
         (0 < m \<and> m < length (filter is_digit (to_ascii unicode v)))"
    if "environ ''PRESIGNED_URL_EXPIRATION'' = Some v"
    using that by (simp add: startup_line45 getenv_default_def int_str_def int_str_fails_iff)
  have set_val: "PRESIGNED_URL_EXPIRATION s = literal_value (to_ascii unicode v)"
    if "environ ''PRESIGNED_URL_EXPIRATION'' = Some v" "?st = Inr s"
  proof -
    from that startup_set [of environ v m unicode create_client]
    obtain n where n: "PyLong_FromString m (to_ascii unicode v) = Inr n"
      and s: "PRESIGNED_URL_EXPIRATION s = n"
      by (auto split: sum.splits option.splits)
    from n have "n = literal_value (to_ascii unicode v)" by (rule parse_value)
    with s show ?thesis by simp
  qed
  have starts: "(\<exists>s'. ?st = Inr s') \<longleftrightarrow>
      ?st \<noteq> Inl (Line45 ValueError) \<and> create_client (environ ''AWS_REGION'') = None"
    by (rule startup_succeeds)
  have first: "environ ''PRESIGNED_URL_EXPIRATION'' = None \<longrightarrow>
      ?st \<noteq> Inl (Line45 ValueError) \<and>
      (?st = Inr s \<longrightarrow>
         PRESIGNED_URL_EXPIRATION s = 3600 \<and>
         (\<forall>call \<in> set (s3_calls (snd (serve rs s))). ExpiresIn call = 3600))"
    using unset_ok unset_val calls by simp
  have second: "environ ''PRESIGNED_URL_EXPIRATION'' = Some v \<longrightarrow>
      (?st = Inl (Line45 ValueError) \<longleftrightarrow>
         \<not> integer_literal (to_ascii unicode v) \<or>
         (0 < m \<and> m < length (filter is_digit (to_ascii unicode v)))) \<and>
      (?st = Inr s \<longrightarrow>
         PRESIGNED_URL_EXPIRATION s = literal_value (to_ascii unicode v) \<and>
         (\<forall>call \<in> set (s3_calls (snd (serve rs s))).
            ExpiresIn call = literal_value (to_ascii unicode v)))"
    using set_fail set_val calls by simp
  from first second starts str_int_literal [of i] str_int_value [of i]
  show ?thesis by blast
qed

theorem expiration_from_environment_witness:
  "environ_default ''PRESIGNED_URL_EXPIRATION'' = None \<and>
   startup 4300 arabic_indic any_region environ_default = Inr (started 3600) \<and>
   PRESIGNED_URL_EXPIRATION (started 3600) = 3600 \<and>
   map ExpiresIn (s3_calls (snd (serve three_requests (started 3600)))) = [3600, 3600] \<and>
   list_all (\<lambda>call. ExpiresIn call = 3600)
     (s3_calls (snd (serve three_requests (started 3600)))) \<and>
   environ_900 ''PRESIGNED_URL_EXPIRATION'' = Some '' +9_00 '' \<and>
   startup 4300 arabic_indic any_region environ_900 = Inr (started 900) \<and>
   literal_value (to_ascii arabic_indic '' +9_00 '') = 900 \<and>
   list_all (\<lambda>call. ExpiresIn call = 900)
     (s3_calls (snd (serve three_requests (started 900)))) \<and>
   environ_arabic ''PRESIGNED_URL_EXPIRATION'' = Some [CHR 0xD9, CHR 0xA1, CHR 0xD9, CHR 0xA2] \<and>
   startup 4300 arabic_indic any_region environ_arabic = Inr (started 12) \<and>
   environ_15m ''PRESIGNED_URL_EXPIRATION'' = Some ''15m'' \<and>
   \<not> integer_literal (to_ascii arabic_indic ''15m'') \<and>
   startup 4300 arabic_indic any_region environ_15m = Inl (Line45 ValueError) \<and>
   strict_regions (environ_bad_region ''AWS_REGION'') \<noteq> None \<and>
   startup 4300 arabic_indic strict_regions environ_bad_region =
     Inl (Line51 (Exception ''InvalidRegionError'')) \<and>
   (\<nexists>s'. startup 4300 arabic_indic strict_regions environ_bad_region = Inr s')"
proof -
  have e1: "environ_default ''PRESIGNED_URL_EXPIRATION'' = None"
    by (simp add: environ_default_def)
  have s1: "startup 4300 arabic_indic any_region environ_default = Inr (started 3600)"
    using e1 startup_unset [where environ = environ_default and m = 4300 and u = arabic_indic
        and cc = any_region]
    by (simp add: any_region_def environ_default_def started_def)
  have e2: "environ_900 ''PRESIGNED_URL_EXPIRATION'' = Some '' +9_00 ''"
    by (simp add: environ_900_def)
  have u2: "to_ascii arabic_indic '' +9_00 '' = '' +9_00 ''"
    by (simp add: to_ascii_def is_ascii_def)
  have p2: "PyLong_FromString 4300 '' +9_00 '' = Inr 900" by code_simp
  have s2: "startup 4300 arabic_indic any_region environ_900 = Inr (started 900)"
    using e2 startup_set [where environ = environ_900 and m = 4300 and u = arabic_indic
        and cc = any_region]
    by (simp add: u2 p2 any_region_def environ_900_def started_def)
  have e3: "environ_arabic ''PRESIGNED_URL_EXPIRATION'' =
      Some [CHR 0xD9, CHR 0xA1, CHR 0xD9, CHR 0xA2]"
    by (simp add: environ_arabic_def)
  have u3: "to_ascii arabic_indic [CHR 0xD9, CHR 0xA1, CHR 0xD9, CHR 0xA2] = ''12''"
    by code_simp
  have p3: "PyLong_FromString 4300 ''12'' = Inr 12" by code_simp
  have s3: "startup 4300 arabic_indic any_region environ_arabic = Inr (started 12)"
    using e3 startup_set [where environ = environ_arabic and m = 4300 and u = arabic_indic
        and cc = any_region]
    by (simp add: u3 p3 any_region_def environ_arabic_def started_def)
  have e4: "environ_15m ''PRESIGNED_URL_EXPIRATION'' = Some ''15m''"
    by (simp add: environ_15m_def)
  have u4: "to_ascii arabic_indic ''15m'' = ''15m''"
    by (simp add: to_ascii_def is_ascii_def)
  have "PyLong_FromString 0 ''15m'' = Inl ValueError" by code_simp
  then have n4: "\<not> integer_literal (to_ascii arabic_indic ''15m'')"
    by (simp add: int_str_fails_iff u4)
  have r5: "strict_regions (environ_bad_region ''AWS_REGION'') \<noteq> None"
    by (simp add: strict_regions_def environ_bad_region_def)
  have e5: "environ_bad_region ''PRESIGNED_URL_EXPIRATION'' = None"
    by (simp add: environ_bad_region_def)
  have s5: "startup 4300 arabic_indic strict_regions environ_bad_region =
     Inl (Line51 (Exception ''InvalidRegionError''))"
    using e5 startup_unset [where environ = environ_bad_region and m = 4300
        and u = arabic_indic and cc = strict_regions]
    by (simp add: strict_regions_def environ_bad_region_def)
  have c: "map ExpiresIn (s3_calls (snd (serve three_requests (started 3600)))) = [3600, 3600]"
    by (simp add: three_requests_def started_def get_generate_presigned_url_def
        generate_presigned_url_def signing_client_def denying_client_def get_health_def
        health_check_def logger_error_def logger_info_def Let_def)
  note t1 = expiration_from_environment [where environ = environ_default and m = 4300
      and unicode = arabic_indic and create_client = any_region and s = "started 3600"
      and rs = three_requests, THEN conjunct1, rule_format, OF e1]
  note t2 = expiration_from_environment [where environ = environ_900 and m = 4300
      and unicode = arabic_indic and create_client = any_region and s = "started 900"
      and rs = three_requests and v = "'' +9_00 ''", THEN conjunct2, THEN conjunct1,
      rule_format, OF e2]
  note t4 = expiration_from_environment [where environ = environ_15m and m = 4300
      and unicode = arabic_indic and create_client = any_region and v = "''15m''",
      THEN conjunct2, THEN conjunct1, rule_format, OF e4]
  note t5 = expiration_from_environment [where environ = environ_bad_region and m = 4300
      and unicode = arabic_indic and create_client = strict_regions,
      THEN conjunct2, THEN conjunct2, THEN conjunct1]
  from t1 s1 have a1: "PRESIGNED_URL_EXPIRATION (started 3600) = 3600"
    and b1: "list_all (\<lambda>call. ExpiresIn call = 3600)
      (s3_calls (snd (serve three_requests (started 3600))))"
    by (simp_all add: list_all_iff)
  from t2 s2 have a2: "literal_value (to_ascii arabic_indic '' +9_00 '') = 900"
    and b2: "list_all (\<lambda>call. ExpiresIn call = 900)
      (s3_calls (snd (serve three_requests (started 900))))"
    by (simp_all add: list_all_iff started_def)
  from t4 n4 have a4: "startup 4300 arabic_indic any_region environ_15m = Inl (Line45 ValueError)"
    by simp
  from t5 r5 have a5: "\<nexists>s'. startup 4300 arabic_indic strict_regions environ_bad_region = Inr s'"
    by simp
  from e1 s1 a1 c b1 e2 s2 a2 b2 e3 s3 e4 n4 a4 r5 s5 a5 show ?thesis by blast
qed

end
